theory Spec2Isabelle
  imports Complex_Main "HOL-Library.Sublist"
begin

section \<open>Python values used by the client\<close>

text \<open>
  The client of \<^verbatim>\<open>github_client.py\<close> is a thin adapter over the PyGithub library.
  Every call into the library either returns a value or raises; the model makes that
  a sum \<open>py_exception + 'a\<close> with \<open>Inl\<close> for the raised exception. The datatype
  below stands for instances of Python's \<^verbatim>\<open>Exception\<close> class: the library's
  \<^verbatim>\<open>GithubException\<close> with its subclasses, the exceptions the client raises itself,
  and every other exception class, which the client's \<^verbatim>\<open>except GithubException\<close>
  clause does not match.
\<close>

datatype github_kind =
    UnknownObjectException
  | BadCredentialsException
  | RateLimitExceededException
  | PlainGithubException

datatype py_exception =
    GithubException github_kind string
  | OtherException string string
  | PlainException string
  | ValueError string
  | UnicodeDecodeError

text \<open>
  \<open>GithubException k s\<close>: an instance of \<^verbatim>\<open>GithubException\<close> of subclass \<open>k\<close> whose
  \<^verbatim>\<open>str(e)\<close> is \<open>s\<close>. \<open>OtherException c s\<close>: an instance of a class \<open>c\<close> that does not
  derive from \<^verbatim>\<open>GithubException\<close> (the transport's connection errors are of this
  sort). \<open>PlainException s\<close> is \<^verbatim>\<open>Exception(s)\<close>.
\<close>

text \<open>\<^verbatim>\<open>hasattr(obj, 'a')\<close>: an attribute is missing or carries a value.\<close>

datatype 'a attr = Missing | Attr 'a

text \<open>
  The truth test of \<^verbatim>\<open>if branch:\<close> on an \<^verbatim>\<open>Optional[str]\<close>: \<^verbatim>\<open>None\<close> and the empty
  string are false.
\<close>

definition truthy :: "string option \<Rightarrow> bool" where
  "truthy s = (case s of None \<Rightarrow> False | Some v \<Rightarrow> v \<noteq> [])"

text \<open>An \<^verbatim>\<open>Optional[str]\<close> inside an f-string.\<close>

definition fmt_opt :: "string option \<Rightarrow> string" where
  "fmt_opt s = (case s of None \<Rightarrow> ''None'' | Some v \<Rightarrow> v)"

subsection \<open>Integers inside f-strings\<close>

definition digit_char :: "nat \<Rightarrow> char" where
  "digit_char d = ''0123456789'' ! (d mod 10)"

function str_nat :: "nat \<Rightarrow> string" where
  "str_nat n =
     (if n < 10 then [digit_char n] else str_nat (n div 10) @ [digit_char (n mod 10)])"
  by pat_completeness auto
termination
  by (relation "measure id") auto

declare str_nat.simps [simp del]

definition str_int :: "int \<Rightarrow> string" where
  "str_int i = (if i < 0 then ''-'' @ str_nat (nat (- i)) else str_nat (nat i))"

subsection \<open>Bytes and their decoding as UTF-8\<close>

text \<open>
  A \<^verbatim>\<open>bytes\<close> object is a list of 8-bit characters. A Python \<^verbatim>\<open>str\<close> is represented by
  its UTF-8 encoding, so \<^verbatim>\<open>b.decode('utf-8')\<close> returns the same list when the bytes are
  well-formed UTF-8 (RFC 3629: no overlong forms, no surrogates, nothing above
  U+10FFFF) and raises \<^verbatim>\<open>UnicodeDecodeError\<close> otherwise.
\<close>

type_synonym bytes = "char list"

definition byte_in :: "char \<Rightarrow> nat \<Rightarrow> nat \<Rightarrow> bool" where
  "byte_in b lo hi = (lo \<le> of_char b \<and> (of_char b :: nat) \<le> hi)"

fun utf8_valid :: "bytes \<Rightarrow> bool" where
  "utf8_valid [] = True"
| "utf8_valid (b0 # bs) =
     (if byte_in b0 0x00 0x7F then utf8_valid bs
      else if byte_in b0 0xC2 0xDF then
        (case bs of
           b1 # r \<Rightarrow> byte_in b1 0x80 0xBF \<and> utf8_valid r
         | _ \<Rightarrow> False)
      else if byte_in b0 0xE0 0xEF then
        (case bs of
           b1 # b2 # r \<Rightarrow>
             byte_in b1 (if b0 = CHR 0xE0 then 0xA0 else 0x80)
                        (if b0 = CHR 0xED then 0x9F else 0xBF)
             \<and> byte_in b2 0x80 0xBF \<and> utf8_valid r
         | _ \<Rightarrow> False)
      else if byte_in b0 0xF0 0xF4 then
        (case bs of
           b1 # b2 # b3 # r \<Rightarrow>
             byte_in b1 (if b0 = CHR 0xF0 then 0x90 else 0x80)
                        (if b0 = CHR 0xF4 then 0x8F else 0xBF)
             \<and> byte_in b2 0x80 0xBF \<and> byte_in b3 0x80 0xBF \<and> utf8_valid r
         | _ \<Rightarrow> False)
      else False)"

definition decode_utf8 :: "bytes \<Rightarrow> py_exception + string" where
  "decode_utf8 bs = (if utf8_valid bs then Inr bs else Inl UnicodeDecodeError)"

section \<open>What the remote library hands to the client\<close>

text \<open>
  A \<^verbatim>\<open>ContentFile\<close> of the library, by the attributes the client reads. The two
  content attributes are probed with \<^verbatim>\<open>hasattr\<close>; each may hold \<^verbatim>\<open>None\<close>.
\<close>

record content_file =
  cf_name :: string
  cf_path :: string
  cf_type :: string
  cf_size :: int
  cf_decoded_content :: "bytes option attr"
  cf_content :: "string option attr"

text \<open>\<^verbatim>\<open>get_contents\<close> returns a list for a directory and one object otherwise.\<close>

datatype contents = ContentList "content_file list" | ContentFile content_file

text \<open>
  A \<^verbatim>\<open>datetime\<close>, with \<^verbatim>\<open>utcoffset()\<close> in microseconds (\<open>None\<close> for a naive value),
  and its \<^verbatim>\<open>isoformat()\<close> with the default separator and time precision.
\<close>

record datetime =
  dt_year :: nat
  dt_month :: nat
  dt_day :: nat
  dt_hour :: nat
  dt_minute :: nat
  dt_second :: nat
  dt_microsecond :: nat
  dt_utcoffset :: "int option"

definition zero_pad :: "nat \<Rightarrow> nat \<Rightarrow> string" where
  "zero_pad w n = replicate (w - length (str_nat n)) (CHR ''0'') @ str_nat n"

definition format_offset :: "int option \<Rightarrow> string" where
  "format_offset off =
     (case off of
        None \<Rightarrow> []
      | Some v \<Rightarrow>
          (let a = nat \<bar>v\<bar>;
               hh = a div 3600000000;
               mm = (a mod 3600000000) div 60000000;
               ss = (a mod 3600000000) mod 60000000
           in (if v < 0 then ''-'' else ''+'') @ zero_pad 2 hh @ '':'' @ zero_pad 2 mm @
              (if ss \<noteq> 0 then
                 '':'' @ zero_pad 2 (ss div 1000000) @
                 (if ss mod 1000000 \<noteq> 0 then ''.'' @ zero_pad 6 (ss mod 1000000) else [])
               else [])))"

definition isoformat :: "datetime \<Rightarrow> string" where
  "isoformat d =
     zero_pad 4 (dt_year d) @ ''-'' @ zero_pad 2 (dt_month d) @ ''-'' @ zero_pad 2 (dt_day d) @
     ''T'' @ zero_pad 2 (dt_hour d) @ '':'' @ zero_pad 2 (dt_minute d) @ '':'' @
     zero_pad 2 (dt_second d) @
     (if dt_microsecond d \<noteq> 0 then ''.'' @ zero_pad 6 (dt_microsecond d) else []) @
     format_offset (dt_utcoffset d)"

text \<open>
  A \<^verbatim>\<open>Repository\<close> of the library: the attributes \<^verbatim>\<open>get_repository_info\<close> reads and
  the \<^verbatim>\<open>get_contents(path, ref=...)\<close> method, whose second argument is \<open>None\<close> when
  the call passes no \<^verbatim>\<open>ref\<close>.
\<close>

record repository =
  repo_name :: string
  repo_full_name :: string
  repo_description :: "string option"
  repo_owner_login :: string
  repo_private :: bool
  repo_fork :: bool
  repo_created_at :: "datetime option"
  repo_updated_at :: "datetime option"
  repo_pushed_at :: "datetime option"
  repo_size :: int
  repo_stargazers_count :: int
  repo_watchers_count :: int
  repo_forks_count :: int
  repo_open_issues_count :: int
  repo_default_branch :: string
  repo_language :: "string option"
  repo_topics :: "string list attr"
  repo_get_contents :: "string \<Rightarrow> string option \<Rightarrow> py_exception + contents"

text \<open>
  The object \<^verbatim>\<open>get_rate_limit()\<close> returns, by the two attribute reads of
  \<^verbatim>\<open>rate_limit.core.remaining\<close>. A read yields a value or raises (\<^verbatim>\<open>AttributeError\<close>
  when the object has no such attribute); \<^verbatim>\<open>remaining\<close> may hold \<^verbatim>\<open>None\<close>, on which the
  comparison with \<^verbatim>\<open>0\<close> raises \<^verbatim>\<open>TypeError\<close>.
\<close>

record rate =
  rate_remaining :: "py_exception + int option"

record rate_limit =
  rl_core :: "py_exception + rate"

text \<open>One match of a code search; the last three attributes are probed with \<^verbatim>\<open>hasattr\<close>.\<close>

record code_hit =
  hit_name :: string
  hit_path :: string
  hit_repository_full_name :: string
  hit_html_url :: string
  hit_score :: "real option attr"
  hit_size :: "int option attr"
  hit_repository_language :: "string option attr"

text \<open>
  The \<^verbatim>\<open>Github\<close> handle held by the client (\<^verbatim>\<open>self.github\<close>): the three library calls
  the client makes. A search returns the matches in the order the service ranks them.
\<close>

record github =
  gh_get_repo :: "string \<Rightarrow> py_exception + repository"
  gh_get_rate_limit :: "py_exception + rate_limit"
  gh_search_code :: "string \<Rightarrow> py_exception + code_hit list"

section \<open>The records the client returns\<close>

record directory_entry =
  de_name :: string
  de_path :: string
  de_type :: string
  de_size :: "int option"

record directory_listing =
  dl_path :: string
  dl_items :: "directory_entry list"

record file_content =
  fc_path :: string
  fc_content :: string
  fc_size :: int
  fc_encoding :: string

record repository_info =
  ri_name :: string
  ri_full_name :: string
  ri_description :: "string option"
  ri_owner :: string
  ri_private :: bool
  ri_fork :: bool
  ri_created_at :: "string option"
  ri_updated_at :: "string option"
  ri_pushed_at :: "string option"
  ri_size :: int
  ri_stargazers_count :: int
  ri_watchers_count :: int
  ri_forks_count :: int
  ri_open_issues_count :: int
  ri_default_branch :: string
  ri_language :: "string option"
  ri_topics :: "string list"

record search_result =
  sr_name :: string
  sr_path :: string
  sr_repository :: string
  sr_url :: string
  sr_score :: "real option"
  sr_size :: "int option"
  sr_language :: "string option"

section \<open>The operations of \<^verbatim>\<open>GitHubClient\<close>\<close>

subsection \<open>\<^verbatim>\<open>get_repository_structure\<close>\<close>

text \<open>
  The call \<^verbatim>\<open>get_contents(path, ref=branch)\<close> when \<^verbatim>\<open>branch\<close> is true, and
  \<^verbatim>\<open>get_contents(path)\<close> otherwise; both operations that read contents make it.
\<close>

definition contents_at ::
  "repository \<Rightarrow> string \<Rightarrow> string option \<Rightarrow> py_exception + contents" where
  "contents_at repo_obj path branch =
     (if truthy branch then repo_get_contents repo_obj path branch
      else repo_get_contents repo_obj path None)"

text \<open>The dictionary built for one child of a directory (lines 40 to 49).\<close>

definition item_data :: "content_file \<Rightarrow> directory_entry" where
  "item_data item =
     (let d = \<lparr>de_name = cf_name item, de_path = cf_path item,
                de_type = (if cf_type item = ''dir'' then ''dir'' else ''file''),
                de_size = None\<rparr>
      in if cf_type item = ''file'' then d\<lparr>de_size := Some (cf_size item)\<rparr> else d)"

text \<open>The loop over the children, appending to \<^verbatim>\<open>items\<close>.\<close>

fun collect_items :: "content_file list \<Rightarrow> directory_entry list \<Rightarrow> directory_entry list" where
  "collect_items [] items = items"
| "collect_items (item # rest) items = collect_items rest (items @ [item_data item])"

text \<open>The body of the \<^verbatim>\<open>try\<close> block.\<close>

definition structure_body ::
  "github \<Rightarrow> string \<Rightarrow> string \<Rightarrow> string \<Rightarrow> string option \<Rightarrow> py_exception + directory_listing"
  where
  "structure_body gh owner repo path branch =
     (case gh_get_repo gh (owner @ ''/'' @ repo) of
        Inl e \<Rightarrow> Inl e
      | Inr repo_obj \<Rightarrow>
          (case contents_at repo_obj path branch of
             Inl e \<Rightarrow> Inl e
           | Inr (ContentList cs) \<Rightarrow>
               Inr \<lparr>dl_path = path, dl_items = collect_items cs []\<rparr>
           | Inr (ContentFile c) \<Rightarrow>
               Inr \<lparr>dl_path = path,
                    dl_items = [\<lparr>de_name = cf_name c, de_path = cf_path c,
                                 de_type = ''file'', de_size = Some (cf_size c)\<rparr>]\<rparr>))"

text \<open>
  The \<^verbatim>\<open>except GithubException as e\<close> clause: only an instance of that class is
  caught and re-raised as \<^verbatim>\<open>Exception(f"GitHub API error: {e}")\<close>.
\<close>

definition get_repository_structure ::
  "github \<Rightarrow> string \<Rightarrow> string \<Rightarrow> string \<Rightarrow> string option \<Rightarrow> py_exception + directory_listing"
  where
  "get_repository_structure gh owner repo path branch =
     (case structure_body gh owner repo path branch of
        Inl (GithubException k s) \<Rightarrow>
          Inl (PlainException (''GitHub API error: '' @ s))
      | Inl e \<Rightarrow> Inl e
      | Inr listing \<Rightarrow> Inr listing)"

subsection \<open>\<^verbatim>\<open>get_file_content\<close>\<close>

definition binary_placeholder :: "int \<Rightarrow> string" where
  "binary_placeholder n = ''[Binary or unsupported encoding - size: '' @ str_int n @ '' bytes]''"

text \<open>
  Lines 93 to 111. \<^verbatim>\<open>base64.b64decode\<close> is the standard library's; whether it raises
  on a given argument (\<^verbatim>\<open>None\<close>, bad padding) is its business, so it is a parameter
  \<open>b64decode\<close> here. Only the second branch stands inside a \<^verbatim>\<open>try\<close>.
\<close>

definition decode_content ::
  "(string option \<Rightarrow> py_exception + bytes) \<Rightarrow> content_file \<Rightarrow> py_exception + string" where
  "decode_content b64decode fc =
     (case cf_decoded_content fc of
        Attr decoded_bytes \<Rightarrow>
          (case decoded_bytes of
             Some bs \<Rightarrow> decode_utf8 bs
           | None \<Rightarrow> Inr [])
      | Missing \<Rightarrow>
          (case cf_content fc of
             Attr c \<Rightarrow>
               (case b64decode c of
                  Inl decode_error \<Rightarrow> Inr (binary_placeholder (cf_size fc))
                | Inr bs \<Rightarrow>
                    (case decode_utf8 bs of
                       Inl decode_error \<Rightarrow> Inr (binary_placeholder (cf_size fc))
                     | Inr content_str \<Rightarrow> Inr content_str))
           | Missing \<Rightarrow> Inr []))"

definition get_file_content ::
  "(string option \<Rightarrow> py_exception + bytes) \<Rightarrow> github \<Rightarrow> string \<Rightarrow> string \<Rightarrow> string \<Rightarrow>
     string option \<Rightarrow> py_exception + file_content" where
  "get_file_content b64decode gh owner repo file_path branch =
     (case gh_get_repo gh (owner @ ''/'' @ repo) of
        Inl e \<Rightarrow> Inl e
      | Inr repo_obj \<Rightarrow>
          (case contents_at repo_obj file_path branch of
             Inl e \<Rightarrow> Inl e
           | Inr (ContentList cs) \<Rightarrow> Inl (ValueError ''Cannot get directory content'')
           | Inr (ContentFile fc) \<Rightarrow>
               (case decode_content b64decode fc of
                  Inl e \<Rightarrow> Inl e
                | Inr content_str \<Rightarrow>
                    Inr \<lparr>fc_path = file_path, fc_content = content_str,
                         fc_size = cf_size fc, fc_encoding = ''utf-8''\<rparr>)))"

subsection \<open>\<^verbatim>\<open>test_connection\<close>\<close>


subsection \<open>\<^verbatim>\<open>get_repository_info\<close>\<close>

definition get_repository_info :: "github \<Rightarrow> string \<Rightarrow> string \<Rightarrow> py_exception + repository_info"
  where
  "get_repository_info gh owner repo =
     (case gh_get_repo gh (owner @ ''/'' @ repo) of
        Inl e \<Rightarrow> Inl e
      | Inr repo_obj \<Rightarrow>
          Inr \<lparr>ri_name = repo_name repo_obj,
               ri_full_name = repo_full_name repo_obj,
               ri_description = repo_description repo_obj,
               ri_owner = repo_owner_login repo_obj,
               ri_private = repo_private repo_obj,
               ri_fork = repo_fork repo_obj,
               ri_created_at =
                 (case repo_created_at repo_obj of Some d \<Rightarrow> Some (isoformat d) | None \<Rightarrow> None),
               ri_updated_at =
                 (case repo_updated_at repo_obj of Some d \<Rightarrow> Some (isoformat d) | None \<Rightarrow> None),
               ri_pushed_at =
                 (case repo_pushed_at repo_obj of Some d \<Rightarrow> Some (isoformat d) | None \<Rightarrow> None),
               ri_size = repo_size repo_obj,
               ri_stargazers_count = repo_stargazers_count repo_obj,
               ri_watchers_count = repo_watchers_count repo_obj,
               ri_forks_count = repo_forks_count repo_obj,
               ri_open_issues_count = repo_open_issues_count repo_obj,
               ri_default_branch = repo_default_branch repo_obj,
               ri_language = repo_language repo_obj,
               ri_topics = (case repo_topics repo_obj of Attr ts \<Rightarrow> ts | Missing \<Rightarrow> [])\<rparr>)"

subsection \<open>\<^verbatim>\<open>search_code\<close>\<close>

text \<open>Lines 168 to 173: the query handed to the library's search.\<close>

definition search_query :: "string \<Rightarrow> string option \<Rightarrow> string option \<Rightarrow> string" where
  "search_query query owner repo =
     (if truthy owner \<and> truthy repo then query @ '' repo:'' @ fmt_opt owner @ ''/'' @ fmt_opt repo
      else if truthy owner then query @ '' user:'' @ fmt_opt owner
      else query)"

definition attr_or_none :: "'a option attr \<Rightarrow> 'a option" where
  "attr_or_none a = (case a of Attr v \<Rightarrow> v | Missing \<Rightarrow> None)"

definition format_result :: "code_hit \<Rightarrow> search_result" where
  "format_result result =
     \<lparr>sr_name = hit_name result,
      sr_path = hit_path result,
      sr_repository = hit_repository_full_name result,
      sr_url = hit_html_url result,
      sr_score = attr_or_none (hit_score result),
      sr_size = attr_or_none (hit_size result),
      sr_language = attr_or_none (hit_repository_language result)\<rparr>"

text \<open>The loop over \<^verbatim>\<open>results[:50]\<close>, appending to \<^verbatim>\<open>formatted_results\<close>.\<close>

fun format_loop :: "code_hit list \<Rightarrow> search_result list \<Rightarrow> search_result list" where
  "format_loop [] formatted_results = formatted_results"
| "format_loop (result # rest) formatted_results =
     format_loop rest (formatted_results @ [format_result result])"

definition search_code ::
  "github \<Rightarrow> string \<Rightarrow> string option \<Rightarrow> string option \<Rightarrow> py_exception + search_result list"
  where
  "search_code gh query owner repo =
     (case gh_search_code gh (search_query query owner repo) of
        Inl e \<Rightarrow> Inl e
      | Inr results \<Rightarrow> Inr (format_loop (take 50 results) []))"

section \<open>The shape of an ISO 8601 timestamp\<close>

text \<open>
  The calendar date and time of day in ISO 8601 extended format,
  \<^verbatim>\<open>YYYY-MM-DDThh:mm:ss\<close>, with an optional fraction of six digits and an optional
  offset from UTC \<^verbatim>\<open>+hh:mm\<close> or \<^verbatim>\<open>-hh:mm\<close>. In a pattern \<^verbatim>\<open>d\<close> stands for a decimal
  digit and every other character for itself.
\<close>

definition is_digit :: "char \<Rightarrow> bool" where
  "is_digit c = (c \<in> set ''0123456789'')"

fun matches :: "string \<Rightarrow> string \<Rightarrow> bool" where
  "matches [] [] = True"
| "matches (p # ps) (c # cs) = ((if p = CHR ''d'' then is_digit c else c = p) \<and> matches ps cs)"
| "matches _ _ = False"

definition iso8601 :: "string \<Rightarrow> bool" where
  "iso8601 s =
     (\<exists>frac \<in> {[], ''.dddddd''}. \<exists>off \<in> {[], ''+dd:dd'', ''-dd:dd''}.
        matches (''dddd-dd-ddTdd:dd:dd'' @ frac @ off) s)"

text \<open>
  The ranges the \<^verbatim>\<open>datetime\<close> constructor enforces, for a value that is naive or whose
  offset from UTC is a whole number of minutes (the service's timestamps are UTC).
\<close>

definition valid_datetime :: "datetime \<Rightarrow> bool" where
  "valid_datetime d =
     (1 \<le> dt_year d \<and> dt_year d \<le> 9999 \<and> 1 \<le> dt_month d \<and> dt_month d \<le> 12 \<and>
      1 \<le> dt_day d \<and> dt_day d \<le> 31 \<and> dt_hour d < 24 \<and> dt_minute d < 60 \<and>
      dt_second d < 60 \<and> dt_microsecond d < 1000000 \<and>
      (case dt_utcoffset d of
         None \<Rightarrow> True
       | Some v \<Rightarrow> \<bar>v\<bar> < 86400000000 \<and> v mod 60000000 = 0))"

section \<open>Sample remote data\<close>

text \<open>
  A small repository \<^verbatim>\<open>octo/hello-world\<close> on which the operations are run: a README
  of 42 bytes, a JPEG fragment that is not UTF-8, a directory, a symbolic link and a
  submodule.
\<close>

definition readme :: content_file where
  "readme = \<lparr>cf_name = ''README.md'', cf_path = ''README.md'', cf_type = ''file'',
              cf_size = 42,
              cf_decoded_content = Attr (Some ''hello-world: my first repository on GitHub''),
              cf_content =
                Attr (Some ''aGVsbG8td29ybGQ6IG15IGZpcnN0IHJlcG9zaXRvcnkgb24gR2l0SHVi'')\<rparr>"

definition logo :: content_file where
  "logo = \<lparr>cf_name = ''logo.jpg'', cf_path = ''logo.jpg'', cf_type = ''file'',
            cf_size = 3,
            cf_decoded_content = Attr (Some [CHR 0xFF, CHR 0xD8, CHR 0xFF]),
            cf_content = Attr (Some ''/9j/'')\<rparr>"

definition src_dir :: content_file where
  "src_dir = \<lparr>cf_name = ''src'', cf_path = ''src'', cf_type = ''dir'', cf_size = 0,
               cf_decoded_content = Attr None, cf_content = Attr None\<rparr>"

definition docs_link :: content_file where
  "docs_link = \<lparr>cf_name = ''docs'', cf_path = ''docs'', cf_type = ''symlink'', cf_size = 8,
                 cf_decoded_content = Attr None, cf_content = Attr None\<rparr>"

definition vendor_lib :: content_file where
  "vendor_lib = \<lparr>cf_name = ''lib'', cf_path = ''vendor/lib'', cf_type = ''submodule'',
                  cf_size = 0, cf_decoded_content = Attr None, cf_content = Attr None\<rparr>"

definition not_found :: py_exception where
  "not_found = GithubException UnknownObjectException ''404 Not Found''"

definition hello_world_contents :: "string \<Rightarrow> string option \<Rightarrow> py_exception + contents" where
  "hello_world_contents path ref =
     (if path = ''/'' then Inr (ContentList [readme, logo, src_dir, docs_link])
      else if path = ''vendor'' then Inr (ContentList [vendor_lib])
      else if path = ''/README.md'' then Inr (ContentFile readme)
      else if path = ''logo.jpg'' then Inr (ContentFile logo)
      else Inl not_found)"

definition hello_world :: repository where
  "hello_world =
     \<lparr>repo_name = ''hello-world'', repo_full_name = ''octo/hello-world'',
      repo_description = Some ''My first repository'', repo_owner_login = ''octo'',
      repo_private = False, repo_fork = False,
      repo_created_at =
        Some \<lparr>dt_year = 2011, dt_month = 1, dt_day = 26, dt_hour = 19, dt_minute = 1,
              dt_second = 12, dt_microsecond = 0, dt_utcoffset = Some 0\<rparr>,
      repo_updated_at =
        Some \<lparr>dt_year = 2024, dt_month = 10, dt_day = 3, dt_hour = 8, dt_minute = 45,
              dt_second = 9, dt_microsecond = 0, dt_utcoffset = None\<rparr>,
      repo_pushed_at = None,
      repo_size = 108, repo_stargazers_count = 80, repo_watchers_count = 80,
      repo_forks_count = 9, repo_open_issues_count = 0, repo_default_branch = ''main'',
      repo_language = None, repo_topics = Missing,
      repo_get_contents = hello_world_contents\<rparr>"

definition numbered_hit :: "nat \<Rightarrow> code_hit" where
  "numbered_hit i =
     \<lparr>hit_name = ''parser.py'', hit_path = ''src/'' @ str_nat i @ ''/parser.py'',
      hit_repository_full_name = ''octo/hello-world'',
      hit_html_url = ''https://github.com/octo/hello-world/blob/main/src/'' @ str_nat i @
                     ''/parser.py'',
      hit_score = Attr (Some 1), hit_size = Missing,
      hit_repository_language = Attr (Some ''Python'')\<rparr>"

text \<open>
  A reachable service with an exhausted quota and sixty matches for every search, and
  an unreachable one whose every call fails in the transport.
\<close>

definition octo_hub :: github where
  "octo_hub =
     \<lparr>gh_get_repo = (\<lambda>full. if full = ''octo/hello-world'' then Inr hello_world
                            else Inl not_found),
      gh_get_rate_limit = Inr \<lparr>rl_core = Inr \<lparr>rate_remaining = Inr (Some 0)\<rparr>\<rparr>,
      gh_search_code = (\<lambda>q. Inr (map numbered_hit [0..<60]))\<rparr>"

definition connection_refused :: py_exception where
  "connection_refused = OtherException ''ConnectionError'' ''Connection refused''"

definition offline_hub :: github where
  "offline_hub =
     \<lparr>gh_get_repo = (\<lambda>full. Inl connection_refused),
      gh_get_rate_limit = Inl connection_refused,
      gh_search_code = (\<lambda>q. Inl connection_refused)\<rparr>"



text \<open>A base64 decoder that always raises, for runs in which none is consulted.\<close>

definition no_b64decode :: "string option \<Rightarrow> py_exception + bytes" where
  "no_b64decode c = Inl (OtherException ''binascii.Error'' ''Incorrect padding'')"

section \<open>Properties of the loops and of the decoding\<close>

lemma collect_items_map: "collect_items cs items = items @ map item_data cs"
  by (induction cs arbitrary: items) simp_all

lemma format_loop_map: "format_loop rs acc = acc @ map format_result rs"
  by (induction rs arbitrary: acc) simp_all

lemma item_data_fields:
  "de_name (item_data c) = cf_name c"
  "de_path (item_data c) = cf_path c"
  "de_type (item_data c) = (if cf_type c = ''dir'' then ''dir'' else ''file'')"
  "de_size (item_data c) = (if cf_type c = ''file'' then Some (cf_size c) else None)"
  by (simp_all add: item_data_def Let_def)

lemma structure_body_directory:
  assumes "gh_get_repo gh (owner @ ''/'' @ repo) = Inr r"
    and "contents_at r path branch = Inr (ContentList cs)"
  shows "structure_body gh owner repo path branch =
           Inr \<lparr>dl_path = path, dl_items = map item_data cs\<rparr>"
  using assms by (simp add: structure_body_def collect_items_map)

lemma structure_directory:
  assumes "gh_get_repo gh (owner @ ''/'' @ repo) = Inr r"
    and "contents_at r path branch = Inr (ContentList cs)"
  shows "get_repository_structure gh owner repo path branch =
           Inr \<lparr>dl_path = path, dl_items = map item_data cs\<rparr>"
  using structure_body_directory [OF assms] by (simp add: get_repository_structure_def)

lemma decoded_content_invalid_raises:
  assumes "cf_decoded_content fc = Attr (Some bs)" and "\<not> utf8_valid bs"
  shows "decode_content b64decode fc = Inl UnicodeDecodeError"
  using assms by (simp add: decode_content_def decode_utf8_def)

lemma base64_branch_never_raises:
  assumes "cf_decoded_content fc = Missing"
  shows "\<exists>content_str. decode_content b64decode fc = Inr content_str"
  using assms by (simp add: decode_content_def split: attr.splits sum.splits)

lemma base64_branch_placeholder:
  assumes "cf_decoded_content fc = Missing" and "cf_content fc = Attr c"
    and "b64decode c = Inr bs" and "\<not> utf8_valid bs"
  shows "decode_content b64decode fc = Inr (binary_placeholder (cf_size fc))"
  using assms by (simp add: decode_content_def decode_utf8_def)

lemma binary_placeholder_has_size: "sublist (str_int n) (binary_placeholder n)"
  unfolding binary_placeholder_def by (rule sublist_appendI)

section \<open>\<^verbatim>\<open>isoformat\<close> yields ISO 8601\<close>

lemma is_digit_digit_char: "is_digit (digit_char n)"
  unfolding is_digit_def digit_char_def by (rule nth_mem) simp

lemma str_nat_digits: "list_all is_digit (str_nat n)"
proof (induction n rule: str_nat.induct)
  case (1 n)
  show ?case
  proof (cases "n < 10")
    case True
    then show ?thesis by (subst str_nat.simps) (simp add: is_digit_digit_char)
  next
    case False
    with 1 show ?thesis by (subst str_nat.simps) (simp add: is_digit_digit_char)
  qed
qed

lemma str_nat_length: "0 < w \<Longrightarrow> n < 10 ^ w \<Longrightarrow> length (str_nat n) \<le> w"
proof (induction n arbitrary: w rule: str_nat.induct)
  case (1 n)
  show ?case
  proof (cases "n < 10")
    case True
    with 1(2) show ?thesis by (subst str_nat.simps) simp
  next
    case False
    obtain v where w: "w = Suc v" using 1(2) by (cases w) auto
    have "0 < v" using False 1(3) w by (cases v) auto
    moreover have "n div 10 < 10 ^ v" using 1(3) w by (simp add: less_mult_imp_div_less mult.commute)
    ultimately have "length (str_nat (n div 10)) \<le> v" using 1(1) False by simp
    with False w show ?thesis by (subst str_nat.simps) simp
  qed
qed

lemma zero_pad_length: "0 < w \<Longrightarrow> n < 10 ^ w \<Longrightarrow> length (zero_pad w n) = w"
  using str_nat_length [of w n] by (simp add: zero_pad_def)

lemma zero_pad_digits: "list_all is_digit (zero_pad w n)"
proof -
  have "is_digit (CHR ''0'')" by (simp add: is_digit_def)
  then have "list_all is_digit (replicate k (CHR ''0''))" for k by (induction k) simp_all
  then show ?thesis by (simp add: zero_pad_def str_nat_digits)
qed

lemma matches_length: "matches p s \<Longrightarrow> length p = length s"
  by (induction p s rule: matches.induct) auto

lemma matches_append:
  "length p = length s \<Longrightarrow> matches (p @ p') (s @ s') = (matches p s \<and> matches p' s')"
  by (induction p s rule: matches.induct) auto

lemma matches_digits:
  "matches (replicate w (CHR ''d'')) s = (length s = w \<and> list_all is_digit s)"
proof (induction w arbitrary: s)
  case 0
  show ?case by (cases s) simp_all
next
  case (Suc w)
  then show ?case by (cases s) auto
qed

lemma matches_zero_pad:
  assumes "0 < w" and "n < 10 ^ w"
  shows "matches (replicate w (CHR ''d'')) (zero_pad w n)"
  using assms by (simp add: matches_digits zero_pad_length zero_pad_digits)

lemma matches_field:
  assumes "0 < w" and "n < 10 ^ w"
  shows "matches (replicate w (CHR ''d'') @ p) (zero_pad w n @ s) = matches p s"
  using matches_append [of "replicate w (CHR ''d'')" "zero_pad w n" p s] assms
  by (simp add: zero_pad_length matches_zero_pad)

lemma matches_date_time:
  assumes "y < 10 ^ 4" and "m < 10 ^ 2" and "dd < 10 ^ 2" and "h < 10 ^ 2" and "mi < 10 ^ 2"
    and "sec < 10 ^ 2"
  shows "matches (''dddd-dd-ddTdd:dd:dd'' @ p)
           (zero_pad 4 y @ ''-'' @ zero_pad 2 m @ ''-'' @ zero_pad 2 dd @ ''T'' @ zero_pad 2 h @
            '':'' @ zero_pad 2 mi @ '':'' @ zero_pad 2 sec @ s) = matches p s"
proof -
  have e: "''dddd-dd-ddTdd:dd:dd'' @ p =
          replicate 4 (CHR ''d'') @ ''-'' @ replicate 2 (CHR ''d'') @ ''-'' @
          replicate 2 (CHR ''d'') @ ''T'' @ replicate 2 (CHR ''d'') @ '':'' @
          replicate 2 (CHR ''d'') @ '':'' @ replicate 2 (CHR ''d'') @ p"
    by (simp add: numeral_eq_Suc)
  have sep: "matches (c # q) (c # t) = matches q t" if "c \<noteq> CHR ''d''" for c q t
    using that by simp
  show ?thesis
    unfolding e using assms
    by (simp only: matches_field sep append_Cons append_Nil zero_less_numeral char.inject
        simp_thms)
qed




lemma matches_offset:
  assumes "\<bar>v\<bar> < 86400000000" and "v mod 60000000 = 0"
  shows "matches (if v < 0 then ''-dd:dd'' else ''+dd:dd'') (format_offset (Some v))"
proof -
  define a where "a = nat \<bar>v\<bar>"
  have a24: "a < 86400000000" using assms(1) by (simp add: a_def)
  have "60000000 dvd v" using assms(2) by (simp add: dvd_eq_mod_eq_0)
  then have "60000000 dvd \<bar>v\<bar>" by simp
  then have "\<bar>v\<bar> mod 60000000 = 0" by (simp only: dvd_eq_mod_eq_0)
  moreover have "a mod 60000000 = nat (\<bar>v\<bar> mod 60000000)"
    unfolding a_def by (simp add: nat_mod_distrib)
  ultimately have am: "a mod 60000000 = 0" by simp
  have "a mod 3600000000 mod 60000000 = a mod 60000000"
    by (rule mod_mod_cancel) simp
  with am have ss: "a mod 3600000000 mod 60000000 = 0" by simp
  have hh: "a div 3600000000 < 10 ^ 2" using a24 by simp
  have mm: "a mod 3600000000 div 60000000 < 10 ^ 2"
  proof -
    have "a mod 3600000000 < 3600000000" by simp
    then show ?thesis by simp
  qed
  have e: "''dd:dd'' = replicate 2 (CHR ''d'') @ '':'' @ replicate 2 (CHR ''d'')"
    by (simp add: numeral_eq_Suc)
  have s1: "matches (replicate 2 (CHR ''d'') @ '':'' @ replicate 2 (CHR ''d''))
          (zero_pad 2 (a div 3600000000) @ '':'' @ zero_pad 2 (a mod 3600000000 div 60000000))
        = matches ('':'' @ replicate 2 (CHR ''d''))
            ('':'' @ zero_pad 2 (a mod 3600000000 div 60000000))"
    by (rule matches_field [OF _ hh]) simp
  have s2: "matches ('':'' @ replicate 2 (CHR ''d''))
              ('':'' @ zero_pad 2 (a mod 3600000000 div 60000000))
            = matches (replicate 2 (CHR ''d'')) (zero_pad 2 (a mod 3600000000 div 60000000))"
    by simp
  have s3: "matches (replicate 2 (CHR ''d'')) (zero_pad 2 (a mod 3600000000 div 60000000))"
    by (rule matches_zero_pad [OF _ mm]) simp
  have "matches ''dd:dd'' (zero_pad 2 (a div 3600000000) @ '':'' @
          zero_pad 2 (a mod 3600000000 div 60000000))"
    unfolding e using s1 s2 s3 by (rule_tac iffD2 [OF trans])
  then show ?thesis
    using ss by (simp add: format_offset_def Let_def a_def [symmetric])
qed




lemma isoformat_iso8601:
  assumes "valid_datetime d"
  shows "iso8601 (isoformat d)"
proof -
  define pf :: string where "pf = (if dt_microsecond d \<noteq> 0 then ''.dddddd'' else [])"
  define po :: string where
    "po = (case dt_utcoffset d of None \<Rightarrow> []
           | Some v \<Rightarrow> if v < 0 then ''-dd:dd'' else ''+dd:dd'')"
  have us: "dt_microsecond d < 10 ^ 6" using assms by (simp add: valid_datetime_def)
  have e6: "''dddddd'' @ p = replicate 6 (CHR ''d'') @ p" for p
    by (simp add: numeral_eq_Suc)
  have frac: "matches (pf @ p)
                ((if dt_microsecond d \<noteq> 0 then ''.'' @ zero_pad 6 (dt_microsecond d) else []) @ s)
              = matches p s" for p s
    using matches_field [of 6 "dt_microsecond d" p s] us e6 [of p] by (simp add: pf_def)
  have off: "matches po (format_offset (dt_utcoffset d))"
  proof (cases "dt_utcoffset d")
    case None
    then show ?thesis by (simp add: po_def format_offset_def)
  next
    case (Some v)
    with assms have "\<bar>v\<bar> < 86400000000" "v mod 60000000 = 0"
      by (simp_all add: valid_datetime_def)
    from matches_offset [OF this] Some show ?thesis by (simp add: po_def)
  qed
  have t1: "matches (''dddd-dd-ddTdd:dd:dd'' @ pf @ po) (isoformat d) =
          matches (pf @ po)
            ((if dt_microsecond d \<noteq> 0 then ''.'' @ zero_pad 6 (dt_microsecond d) else []) @
             format_offset (dt_utcoffset d))"
    unfolding isoformat_def
    by (rule matches_date_time) (use assms in \<open>simp_all add: valid_datetime_def\<close>)
  have t2: "matches (pf @ po)
            ((if dt_microsecond d \<noteq> 0 then ''.'' @ zero_pad 6 (dt_microsecond d) else []) @
             format_offset (dt_utcoffset d)) = matches po (format_offset (dt_utcoffset d))"
    by (rule frac)
  have "matches (''dddd-dd-ddTdd:dd:dd'' @ pf @ po) (isoformat d)"
    by (rule iffD2 [OF trans [OF t1 t2] off])
  moreover have "pf \<in> {[], ''.dddddd''}" by (simp add: pf_def)
  moreover have "po \<in> {[], ''+dd:dd'', ''-dd:dd''}" by (simp add: po_def split: option.splits)
  ultimately show ?thesis unfolding iso8601_def by blast
qed

section \<open>The claims\<close>

subsection \<open>Error handling\<close>

text \<open>
  C1. The claim: for every file whose bytes are not valid UTF-8, \<^verbatim>\<open>get_file_content\<close>
  returns a record whose content is the placeholder with the byte size, and never
  raises a decode exception, whether the remote object carries decoded bytes or base64
  text. The base64 branch does so (\<open>base64_branch_never_raises\<close>,
  \<open>base64_branch_placeholder\<close>); the branch for an object with a
  \<^verbatim>\<open>decoded_content\<close> attribute decodes outside any \<^verbatim>\<open>try\<close>. On the JPEG fragment
  \<^verbatim>\<open>b'\xff\xd8\xff'\<close> of the sample repository the call raises
  \<^verbatim>\<open>UnicodeDecodeError\<close>, whatever the base64 decoder is.
\<close>

theorem get_file_content_binary_raises:
  "get_file_content b64decode octo_hub ''octo'' ''hello-world'' ''logo.jpg'' None
     = Inl UnicodeDecodeError"
  by (simp add: get_file_content_def octo_hub_def hello_world_def contents_at_def truthy_def
      hello_world_contents_def logo_def decode_content_def decode_utf8_def byte_in_def)

text \<open>
  C2. The claim: every remote failure during \<^verbatim>\<open>get_repository_structure\<close>, a network
  failure included, surfaces as the one generic error carrying the underlying message.
  The \<^verbatim>\<open>except\<close> clause names \<^verbatim>\<open>GithubException\<close> only. Amended: a failure of either
  remote call that is a \<^verbatim>\<open>GithubException\<close>, of whatever subclass, surfaces as
  \<^verbatim>\<open>Exception("GitHub API error: " + str(e))\<close>; any other exception leaves the call as
  it was raised.
\<close>

theorem structure_remote_failure:
  assumes "gh_get_repo gh (owner @ ''/'' @ repo) = Inl e \<or>
           (\<exists>r. gh_get_repo gh (owner @ ''/'' @ repo) = Inr r \<and>
                contents_at r path branch = Inl e)"
  shows "get_repository_structure gh owner repo path branch =
           (case e of
              GithubException k s \<Rightarrow> Inl (PlainException (''GitHub API error: '' @ s))
            | _ \<Rightarrow> Inl e)"
  using assms
  by (auto simp add: get_repository_structure_def structure_body_def split: py_exception.splits)

theorem structure_remote_failure_witness:
  "get_repository_structure octo_hub ''octo'' ''goodbye'' ''/'' None
     = Inl (PlainException ''GitHub API error: 404 Not Found'') \<and>
   get_repository_structure octo_hub ''octo'' ''hello-world'' ''LICENSE'' (Some ''dev'')
     = Inl (PlainException ''GitHub API error: 404 Not Found'')"
proof -
  have a: "gh_get_repo octo_hub (''octo'' @ ''/'' @ ''goodbye'') = Inl not_found"
    by (simp add: octo_hub_def)
  have b: "gh_get_repo octo_hub (''octo'' @ ''/'' @ ''hello-world'') = Inr hello_world"
    by (simp add: octo_hub_def)
  have c: "contents_at hello_world ''LICENSE'' (Some ''dev'') = Inl not_found"
    by (simp add: contents_at_def truthy_def hello_world_def hello_world_contents_def)
  from a structure_remote_failure [of octo_hub "''octo''" "''goodbye''" not_found "''/''" None]
  have "get_repository_structure octo_hub ''octo'' ''goodbye'' ''/'' None
          = Inl (PlainException ''GitHub API error: 404 Not Found'')"
    by (simp add: not_found_def)
  moreover from b c
    structure_remote_failure
      [of octo_hub "''octo''" "''hello-world''" not_found "''LICENSE''" "Some ''dev''"]
  have "get_repository_structure octo_hub ''octo'' ''hello-world'' ''LICENSE'' (Some ''dev'')
          = Inl (PlainException ''GitHub API error: 404 Not Found'')"
    by (simp add: not_found_def)
  ultimately show ?thesis by simp
qed

theorem structure_network_failure_unwrapped:
  "get_repository_structure offline_hub ''octo'' ''hello-world'' ''/'' None
     = Inl (OtherException ''ConnectionError'' ''Connection refused'') \<and>
   get_repository_structure offline_hub ''octo'' ''hello-world'' ''/'' None
     \<noteq> Inl (PlainException (''GitHub API error: '' @ ''Connection refused''))"
  by (simp add: get_repository_structure_def structure_body_def offline_hub_def
      connection_refused_def)

text \<open>
  C3. When the path of \<^verbatim>\<open>get_file_content\<close> resolves to a directory (the contents
  lookup returns a list), the call fails with \<^verbatim>\<open>ValueError\<close>, Python's invalid-argument
  exception, whose message contains the word "directory". The failure precedes all
  decoding: it is the result for every base64 decoder and every list, so no decoder's
  answer is consulted.
\<close>

theorem get_file_content_directory:
  assumes "gh_get_repo gh (owner @ ''/'' @ repo) = Inr r"
    and "contents_at r file_path branch = Inr (ContentList cs)"
  shows "get_file_content b64decode gh owner repo file_path branch
           = Inl (ValueError ''Cannot get directory content'') \<and>
         sublist ''directory'' ''Cannot get directory content''"
proof -
  have "''Cannot get directory content'' = ''Cannot get '' @ ''directory'' @ '' content''"
    by simp
  then have "sublist ''directory'' ''Cannot get directory content''"
    by (metis sublist_appendI)
  with assms show ?thesis by (simp add: get_file_content_def)
qed

theorem get_file_content_directory_witness:
  "get_file_content no_b64decode octo_hub ''octo'' ''hello-world'' ''vendor'' None
     = Inl (ValueError ''Cannot get directory content'') \<and>
   sublist ''directory'' ''Cannot get directory content''"
proof -
  have a: "gh_get_repo octo_hub (''octo'' @ ''/'' @ ''hello-world'') = Inr hello_world"
    by (simp add: octo_hub_def)
  have b: "contents_at hello_world ''vendor'' None = Inr (ContentList [vendor_lib])"
    by (simp add: contents_at_def truthy_def hello_world_def hello_world_contents_def)
  show ?thesis using get_file_content_directory [OF a b, of no_b64decode] .
qed




subsection \<open>Functional correctness\<close>

text \<open>
  C5. For every query, \<^verbatim>\<open>search_code\<close> returns at most 50 results, however many
  matches the service reports, and they are the first matches in the order the service
  returned them, with no re-sorting: the result at each position carries the name,
  path, repository, url, score, size and language of the match at the same position.
\<close>

theorem search_code_first_fifty:
  assumes "gh_search_code gh (search_query query owner repo) = Inr results"
  shows "\<exists>out.
           search_code gh query owner repo = Inr out \<and>
           out = map format_result (take 50 results) \<and>
           length out \<le> 50 \<and>
           length out = min 50 (length results) \<and>
           (\<forall>i < length out.
              sr_name (out ! i) = hit_name (results ! i) \<and>
              sr_path (out ! i) = hit_path (results ! i) \<and>
              sr_repository (out ! i) = hit_repository_full_name (results ! i) \<and>
              sr_url (out ! i) = hit_html_url (results ! i) \<and>
              sr_score (out ! i) =
                (case hit_score (results ! i) of Attr v \<Rightarrow> v | Missing \<Rightarrow> None) \<and>
              sr_size (out ! i) =
                (case hit_size (results ! i) of Attr v \<Rightarrow> v | Missing \<Rightarrow> None) \<and>
              sr_language (out ! i) =
                (case hit_repository_language (results ! i) of
                   Attr v \<Rightarrow> v
                 | Missing \<Rightarrow> None))"
proof -
  let ?out = "map format_result (take 50 results)"
  have "search_code gh query owner repo = Inr ?out"
    using assms by (simp add: search_code_def format_loop_map)
  moreover have "length ?out \<le> 50" and "length ?out = min 50 (length results)"
    by (simp_all add: min.commute)
  moreover have "?out ! i = format_result (results ! i)" if "i < length ?out" for i
    using that by simp
  ultimately show ?thesis
    by (auto simp add: format_result_def attr_or_none_def simp del: length_map length_take)
qed

theorem search_code_first_fifty_witness:
  "length (projr (gh_search_code octo_hub (search_query ''parser'' None None))) = 60 \<and>
   length (projr (search_code octo_hub ''parser'' None None)) = 50 \<and>
   sr_path (projr (search_code octo_hub ''parser'' None None) ! 0) = ''src/0/parser.py'' \<and>
   sr_path (projr (search_code octo_hub ''parser'' None None) ! 49) = ''src/49/parser.py'' \<and>
   sr_name (projr (search_code octo_hub ''parser'' None None) ! 49) = ''parser.py'' \<and>
   sr_repository (projr (search_code octo_hub ''parser'' None None) ! 49)
     = ''octo/hello-world'' \<and>
   sr_url (projr (search_code octo_hub ''parser'' None None) ! 49)
     = ''https://github.com/octo/hello-world/blob/main/src/49/parser.py'' \<and>
   sr_score (projr (search_code octo_hub ''parser'' None None) ! 49) = Some 1 \<and>
   sr_size (projr (search_code octo_hub ''parser'' None None) ! 49) = None \<and>
   sr_language (projr (search_code octo_hub ''parser'' None None) ! 49) = Some ''Python''"
proof -
  let ?results = "map numbered_hit [0..<60]"
  have a: "gh_search_code octo_hub (search_query ''parser'' None None) = Inr ?results"
    by (simp add: octo_hub_def)
  from search_code_first_fifty [OF a] obtain out where
    o: "search_code octo_hub ''parser'' None None = Inr out"
    and n: "length out = min 50 (length ?results)"
    and e: "\<forall>i < length out.
              sr_name (out ! i) = hit_name (?results ! i) \<and>
              sr_path (out ! i) = hit_path (?results ! i) \<and>
              sr_repository (out ! i) = hit_repository_full_name (?results ! i) \<and>
              sr_url (out ! i) = hit_html_url (?results ! i) \<and>
              sr_score (out ! i) =
                (case hit_score (?results ! i) of Attr v \<Rightarrow> v | Missing \<Rightarrow> None) \<and>
              sr_size (out ! i) =
                (case hit_size (?results ! i) of Attr v \<Rightarrow> v | Missing \<Rightarrow> None) \<and>
              sr_language (out ! i) =
                (case hit_repository_language (?results ! i) of
                   Attr v \<Rightarrow> v
                 | Missing \<Rightarrow> None)"
    by blast
  from n have n50: "length out = 50" by simp
  have h0: "?results ! 0 = numbered_hit 0" and h49: "?results ! 49 = numbered_hit 49"
    by simp_all
  have s0: "str_nat 0 = ''0''" and s49: "str_nat 49 = ''49''"
    by (simp_all add: str_nat.simps digit_char_def)
  from e n50 have "sr_path (out ! 0) = hit_path (?results ! 0)" by simp
  then have p0: "sr_path (out ! 0) = ''src/0/parser.py''"
    by (simp only: h0) (simp add: numbered_hit_def s0)
  from e n50 have
    "sr_name (out ! 49) = hit_name (?results ! 49) \<and>
     sr_path (out ! 49) = hit_path (?results ! 49) \<and>
     sr_repository (out ! 49) = hit_repository_full_name (?results ! 49) \<and>
     sr_url (out ! 49) = hit_html_url (?results ! 49) \<and>
     sr_score (out ! 49) =
       (case hit_score (?results ! 49) of Attr v \<Rightarrow> v | Missing \<Rightarrow> None) \<and>
     sr_size (out ! 49) =
       (case hit_size (?results ! 49) of Attr v \<Rightarrow> v | Missing \<Rightarrow> None) \<and>
     sr_language (out ! 49) =
       (case hit_repository_language (?results ! 49) of Attr v \<Rightarrow> v | Missing \<Rightarrow> None)"
    by simp
  then have p49:
    "sr_name (out ! 49) = ''parser.py'' \<and>
     sr_path (out ! 49) = ''src/49/parser.py'' \<and>
     sr_repository (out ! 49) = ''octo/hello-world'' \<and>
     sr_url (out ! 49) = ''https://github.com/octo/hello-world/blob/main/src/49/parser.py'' \<and>
     sr_score (out ! 49) = Some 1 \<and>
     sr_size (out ! 49) = None \<and>
     sr_language (out ! 49) = Some ''Python''"
    by (simp only: h49) (simp add: numbered_hit_def s49)
  show ?thesis using a o n50 p0 p49 by simp
qed

text \<open>
  C6. The query string \<^verbatim>\<open>search_code\<close> passes to the remote search: with owner and
  repo both given, the raw query followed by \<^verbatim>\<open>" repo:owner/repo"\<close>; with only the owner
  given, the raw query followed by \<^verbatim>\<open>" user:owner"\<close>; with neither, the bare query. An
  argument is given when it passes the source's test \<^verbatim>\<open>if owner\<close>, that is when it is
  neither \<^verbatim>\<open>None\<close> nor the empty string. The last conjunct says that the remote
  search is called with exactly this string.
\<close>

theorem search_query_scoping:
  "(truthy owner \<and> truthy repo \<longrightarrow>
      search_query query owner repo = query @ '' repo:'' @ the owner @ ''/'' @ the repo) \<and>
   (truthy owner \<and> \<not> truthy repo \<longrightarrow>
      search_query query owner repo = query @ '' user:'' @ the owner) \<and>
   (\<not> truthy owner \<and> \<not> truthy repo \<longrightarrow> search_query query owner repo = query) \<and>
   search_code gh query owner repo =
     (case gh_search_code gh (search_query query owner repo) of
        Inl e \<Rightarrow> Inl e
      | Inr results \<Rightarrow> Inr (map format_result (take 50 results)))"
  by (auto simp add: search_query_def search_code_def format_loop_map truthy_def fmt_opt_def
      split: option.splits sum.splits)

theorem search_query_scoping_witness:
  "search_query ''parser'' (Some ''a'') (Some ''b'') = ''parser repo:a/b'' \<and>
   search_query ''parser'' (Some ''a'') None = ''parser user:a'' \<and>
   search_query ''parser'' None None = ''parser''"
  using search_query_scoping [of "Some ''a''" "Some ''b''" "''parser''" octo_hub]
    search_query_scoping [of "Some ''a''" None "''parser''" octo_hub]
    search_query_scoping [of None None "''parser''" octo_hub]
  by (simp add: truthy_def)

text \<open>
  C7. The claim: for a directory with N immediate children the listing has exactly N
  entries, and in every entry the size is present iff the kind is file and absent iff
  the kind is dir. The kind is \<^verbatim>\<open>"dir"\<close> for a child of remote type \<^verbatim>\<open>"dir"\<close> and
  \<^verbatim>\<open>"file"\<close> for every other, while the size is filled in for the remote type
  \<^verbatim>\<open>"file"\<close> alone. Amended: the listing has exactly N entries, one per child in the
  remote order; an entry's size is present (the child's size) iff the child's remote
  type is \<^verbatim>\<open>"file"\<close>, and its kind is dir iff that type is \<^verbatim>\<open>"dir"\<close>; so size is
  present iff kind is file, and absent iff kind is dir, for every child whose remote
  type is \<^verbatim>\<open>"file"\<close> or \<^verbatim>\<open>"dir"\<close>.
\<close>

theorem structure_directory_entries:
  assumes "gh_get_repo gh (owner @ ''/'' @ repo) = Inr r"
    and "contents_at r path branch = Inr (ContentList cs)"
  shows "\<exists>listing.
           get_repository_structure gh owner repo path branch = Inr listing \<and>
           dl_path listing = path \<and>
           length (dl_items listing) = length cs \<and>
           (\<forall>i < length cs.
              de_name (dl_items listing ! i) = cf_name (cs ! i) \<and>
              de_path (dl_items listing ! i) = cf_path (cs ! i) \<and>
              (de_size (dl_items listing ! i) \<noteq> None \<longleftrightarrow> cf_type (cs ! i) = ''file'') \<and>
              (cf_type (cs ! i) = ''file'' \<longrightarrow>
                 de_size (dl_items listing ! i) = Some (cf_size (cs ! i))) \<and>
              (de_type (dl_items listing ! i) = ''dir'' \<longleftrightarrow> cf_type (cs ! i) = ''dir'') \<and>
              (de_type (dl_items listing ! i) = ''file'' \<longleftrightarrow> cf_type (cs ! i) \<noteq> ''dir'') \<and>
              (cf_type (cs ! i) = ''file'' \<or> cf_type (cs ! i) = ''dir'' \<longrightarrow>
                 (de_size (dl_items listing ! i) \<noteq> None
                    \<longleftrightarrow> de_type (dl_items listing ! i) = ''file'') \<and>
                 (de_size (dl_items listing ! i) = None
                    \<longleftrightarrow> de_type (dl_items listing ! i) = ''dir'')))"
  using structure_directory [OF assms] by (simp add: item_data_fields)

theorem structure_directory_entries_witness:
  "dl_path (projr (get_repository_structure octo_hub ''octo'' ''hello-world'' ''/'' None)) = ''/'' \<and>
   length (dl_items (projr (get_repository_structure octo_hub ''octo'' ''hello-world'' ''/'' None)))
     = 4 \<and>
   de_size (dl_items (projr (get_repository_structure octo_hub ''octo'' ''hello-world'' ''/'' None)) ! 0)
     = Some 42 \<and>
   de_type (dl_items (projr (get_repository_structure octo_hub ''octo'' ''hello-world'' ''/'' None)) ! 2)
     = ''dir'' \<and>
   de_size (dl_items (projr (get_repository_structure octo_hub ''octo'' ''hello-world'' ''/'' None)) ! 2)
     = None"
proof -
  let ?cs = "[readme, logo, src_dir, docs_link]"
  have a: "gh_get_repo octo_hub (''octo'' @ ''/'' @ ''hello-world'') = Inr hello_world"
    by (simp add: octo_hub_def)
  have b: "contents_at hello_world ''/'' None = Inr (ContentList ?cs)"
    by (simp add: contents_at_def truthy_def hello_world_def hello_world_contents_def)
  from structure_directory_entries [OF a b] obtain listing where
    l: "get_repository_structure octo_hub ''octo'' ''hello-world'' ''/'' None = Inr listing"
    and p: "dl_path listing = ''/''"
    and n: "length (dl_items listing) = length ?cs"
    and e: "\<forall>i < length ?cs.
              de_name (dl_items listing ! i) = cf_name (?cs ! i) \<and>
              (cf_type (?cs ! i) = ''file'' \<longrightarrow>
                 de_size (dl_items listing ! i) = Some (cf_size (?cs ! i))) \<and>
              (de_size (dl_items listing ! i) \<noteq> None \<longleftrightarrow> cf_type (?cs ! i) = ''file'') \<and>
              (de_type (dl_items listing ! i) = ''dir'' \<longleftrightarrow> cf_type (?cs ! i) = ''dir'')"
    by blast
  from n have n4: "length (dl_items listing) = 4" by simp
  from e have "cf_type (?cs ! 0) = ''file'' \<longrightarrow>
                 de_size (dl_items listing ! 0) = Some (cf_size (?cs ! 0))"
    by simp
  then have s0: "de_size (dl_items listing ! 0) = Some 42" by (simp add: readme_def)
  from e have "(de_size (dl_items listing ! 2) \<noteq> None \<longleftrightarrow> cf_type (?cs ! 2) = ''file'') \<and>
               (de_type (dl_items listing ! 2) = ''dir'' \<longleftrightarrow> cf_type (?cs ! 2) = ''dir'')"
    by simp
  then have s2: "de_type (dl_items listing ! 2) = ''dir'' \<and> de_size (dl_items listing ! 2) = None"
    by (simp add: src_dir_def)
  show ?thesis using l p n4 s0 s2 by simp
qed

theorem structure_symlink_breaks_size_iff_file:
  "get_repository_structure octo_hub ''octo'' ''hello-world'' ''/'' None =
     Inr \<lparr>dl_path = ''/'',
          dl_items = map item_data [readme, logo, src_dir, docs_link]\<rparr> \<and>
   de_type (item_data docs_link) = ''file'' \<and> de_size (item_data docs_link) = None"
  by (simp add: get_repository_structure_def structure_body_def octo_hub_def hello_world_def
      contents_at_def truthy_def hello_world_contents_def collect_items_map item_data_fields
      docs_link_def)

text \<open>
  C8. For a path addressing a single file, \<^verbatim>\<open>get_repository_structure\<close> returns a
  listing whose path is the requested path and whose items are exactly one entry, of
  kind file, with the file's name, path and byte size.
\<close>

theorem structure_single_file:
  assumes "gh_get_repo gh (owner @ ''/'' @ repo) = Inr r"
    and "contents_at r path branch = Inr (ContentFile c)"
  shows "get_repository_structure gh owner repo path branch =
           Inr \<lparr>dl_path = path,
                dl_items = [\<lparr>de_name = cf_name c, de_path = cf_path c, de_type = ''file'',
                             de_size = Some (cf_size c)\<rparr>]\<rparr>"
  using assms by (simp add: get_repository_structure_def structure_body_def)

theorem structure_single_file_witness:
  "get_repository_structure octo_hub ''octo'' ''hello-world'' ''/README.md'' None =
     Inr \<lparr>dl_path = ''/README.md'',
          dl_items = [\<lparr>de_name = ''README.md'', de_path = ''README.md'', de_type = ''file'',
                       de_size = Some 42\<rparr>]\<rparr>"
proof -
  have a: "gh_get_repo octo_hub (''octo'' @ ''/'' @ ''hello-world'') = Inr hello_world"
    by (simp add: octo_hub_def)
  have b: "contents_at hello_world ''/README.md'' None = Inr (ContentFile readme)"
    by (simp add: contents_at_def truthy_def hello_world_def hello_world_contents_def)
  show ?thesis using structure_single_file [OF a b] by (simp add: readme_def)
qed

text \<open>
  C9. \<^verbatim>\<open>get_repository_info\<close> returns a record in which each of the created, updated
  and pushed timestamps is null when the remote value is \<^verbatim>\<open>None\<close> and otherwise the
  remote value's \<^verbatim>\<open>isoformat()\<close>, a string of the ISO 8601 shape for every value in
  the ranges of \<^verbatim>\<open>datetime\<close>; the topics are the remote topics, and the empty
  sequence when the remote object has no \<^verbatim>\<open>topics\<close> attribute.
\<close>

theorem repository_info_timestamps:
  assumes "gh_get_repo gh (owner @ ''/'' @ repo) = Inr r"
  shows "\<exists>info.
           get_repository_info gh owner repo = Inr info \<and>
           (case repo_created_at r of
              None \<Rightarrow> ri_created_at info = None
            | Some d \<Rightarrow> ri_created_at info = Some (isoformat d) \<and>
                        (valid_datetime d \<longrightarrow> iso8601 (isoformat d))) \<and>
           (case repo_updated_at r of
              None \<Rightarrow> ri_updated_at info = None
            | Some d \<Rightarrow> ri_updated_at info = Some (isoformat d) \<and>
                        (valid_datetime d \<longrightarrow> iso8601 (isoformat d))) \<and>
           (case repo_pushed_at r of
              None \<Rightarrow> ri_pushed_at info = None
            | Some d \<Rightarrow> ri_pushed_at info = Some (isoformat d) \<and>
                        (valid_datetime d \<longrightarrow> iso8601 (isoformat d))) \<and>
           ri_topics info = (case repo_topics r of Missing \<Rightarrow> [] | Attr ts \<Rightarrow> ts)"
  using assms
  by (simp add: get_repository_info_def isoformat_iso8601 split: option.splits attr.splits)

theorem repository_info_timestamps_witness:
  "ri_created_at (projr (get_repository_info octo_hub ''octo'' ''hello-world''))
     = Some ''2011-01-26T19:01:12+00:00'' \<and>
   iso8601 ''2011-01-26T19:01:12+00:00'' \<and>
   ri_updated_at (projr (get_repository_info octo_hub ''octo'' ''hello-world''))
     = Some ''2024-10-03T08:45:09'' \<and>
   iso8601 ''2024-10-03T08:45:09'' \<and>
   ri_pushed_at (projr (get_repository_info octo_hub ''octo'' ''hello-world'')) = None \<and>
   ri_topics (projr (get_repository_info octo_hub ''octo'' ''hello-world'')) = []"
proof -
  let ?c = "\<lparr>dt_year = 2011, dt_month = 1, dt_day = 26, dt_hour = 19, dt_minute = 1,
             dt_second = 12, dt_microsecond = 0, dt_utcoffset = Some 0\<rparr>"
  let ?u = "\<lparr>dt_year = 2024, dt_month = 10, dt_day = 3, dt_hour = 8, dt_minute = 45,
             dt_second = 9, dt_microsecond = 0, dt_utcoffset = None\<rparr>"
  have a: "gh_get_repo octo_hub (''octo'' @ ''/'' @ ''hello-world'') = Inr hello_world"
    by (simp add: octo_hub_def)
  have c: "isoformat ?c = ''2011-01-26T19:01:12+00:00''"
    by (simp add: isoformat_def format_offset_def zero_pad_def str_nat.simps digit_char_def)
  have u: "isoformat ?u = ''2024-10-03T08:45:09''"
    by (simp add: isoformat_def format_offset_def zero_pad_def str_nat.simps digit_char_def)
  have vc: "valid_datetime ?c" by (simp add: valid_datetime_def)
  have vu: "valid_datetime ?u" by (simp add: valid_datetime_def)
  from repository_info_timestamps [OF a] obtain info where
    i: "get_repository_info octo_hub ''octo'' ''hello-world'' = Inr info"
    and cr: "ri_created_at info = Some (isoformat ?c) \<and>
             (valid_datetime ?c \<longrightarrow> iso8601 (isoformat ?c))"
    and up: "ri_updated_at info = Some (isoformat ?u) \<and>
             (valid_datetime ?u \<longrightarrow> iso8601 (isoformat ?u))"
    and pu: "ri_pushed_at info = None"
    and tp: "ri_topics info = []"
    by (auto simp add: hello_world_def)
  from cr vc have "ri_created_at info = Some (isoformat ?c)" and "iso8601 (isoformat ?c)"
    by blast+
  then have cr': "ri_created_at info = Some ''2011-01-26T19:01:12+00:00''"
    and ci: "iso8601 ''2011-01-26T19:01:12+00:00''"
    by (simp_all only: c)
  from up vu have "ri_updated_at info = Some (isoformat ?u)" and "iso8601 (isoformat ?u)"
    by blast+
  then have up': "ri_updated_at info = Some ''2024-10-03T08:45:09''"
    and ui: "iso8601 ''2024-10-03T08:45:09''"
    by (simp_all only: u)
  show ?thesis using i cr' ci up' ui pu tp by simp
qed

text \<open>
  C10. A child of a directory whose remote type is neither \<^verbatim>\<open>"file"\<close> nor \<^verbatim>\<open>"dir"\<close>
  (a symbolic link, a submodule) is listed with kind \<^verbatim>\<open>"file"\<close> and a null size: the
  size of an entry is filled in only when the remote type is exactly \<^verbatim>\<open>"file"\<close>.
\<close>

theorem structure_other_type_entry:
  assumes "gh_get_repo gh (owner @ ''/'' @ repo) = Inr r"
    and "contents_at r path branch = Inr (ContentList cs)"
    and "i < length cs"
    and "cf_type (cs ! i) \<noteq> ''file''" and "cf_type (cs ! i) \<noteq> ''dir''"
  shows "\<exists>listing.
           get_repository_structure gh owner repo path branch = Inr listing \<and>
           dl_items listing ! i =
             \<lparr>de_name = cf_name (cs ! i), de_path = cf_path (cs ! i), de_type = ''file'',
              de_size = None\<rparr> \<and>
           (\<forall>c. de_size (item_data c) \<noteq> None \<longleftrightarrow> cf_type c = ''file'')"
proof -
  have "item_data (cs ! i) =
          \<lparr>de_name = cf_name (cs ! i), de_path = cf_path (cs ! i), de_type = ''file'',
           de_size = None\<rparr>"
    using assms(4,5) by (simp add: item_data_def)
  moreover have "\<forall>c. de_size (item_data c) \<noteq> None \<longleftrightarrow> cf_type c = ''file''"
    by (simp add: item_data_fields)
  ultimately show ?thesis
    using structure_directory [OF assms(1,2)] assms(3) by simp
qed

theorem structure_other_type_entry_witness:
  "dl_items (projr (get_repository_structure octo_hub ''octo'' ''hello-world'' ''vendor'' None)) ! 0
     = \<lparr>de_name = ''lib'', de_path = ''vendor/lib'', de_type = ''file'', de_size = None\<rparr>"
proof -
  have a: "gh_get_repo octo_hub (''octo'' @ ''/'' @ ''hello-world'') = Inr hello_world"
    by (simp add: octo_hub_def)
  have b: "contents_at hello_world ''vendor'' None = Inr (ContentList [vendor_lib])"
    by (simp add: contents_at_def truthy_def hello_world_def hello_world_contents_def)
  have "\<exists>listing.
          get_repository_structure octo_hub ''octo'' ''hello-world'' ''vendor'' None = Inr listing \<and>
          dl_items listing ! 0 =
            \<lparr>de_name = cf_name ([vendor_lib] ! 0), de_path = cf_path ([vendor_lib] ! 0),
             de_type = ''file'', de_size = None\<rparr> \<and>
          (\<forall>c. de_size (item_data c) \<noteq> None \<longleftrightarrow> cf_type c = ''file'')"
    by (rule structure_other_type_entry [OF a b]) (simp_all add: vendor_lib_def)
  then show ?thesis by (auto simp add: vendor_lib_def)
qed

end
